theory Spec2Isabelle
  imports Complex_Main
begin

section \<open>JavaScript values\<close>

text \<open>
  The pages pass loosely typed values around: results of the text-generation pipeline
  (\<open>unknown\<close> in the source) and values thrown by library calls. They are modelled as
  finite trees. A string is a list of characters (non-ASCII text as its UTF-8 bytes; the
  pages never inspect the characters of a string). \<open>JNum\<close> holds an integer-valued number,
  \<open>JObj\<close> the own enumerable properties of a plain object in enumeration order (keys
  distinct), \<open>JError name message\<close> an instance of \<open>Error\<close>. Cyclic structures, functions,
  symbols, getters and proxies are outside this universe.
\<close>

datatype jsval =
    JUndefined
  | JNull
  | JBool bool
  | JNum int
  | JBigInt int
  | JStr string
  | JArr "jsval list"
  | JObj "(string \<times> jsval) list"
  | JError string string

text \<open>\<open>typeof x\<close>.\<close>

fun typeof :: "jsval \<Rightarrow> string" where
  "typeof JUndefined = ''undefined''"
| "typeof JNull = ''object''"
| "typeof (JBool b) = ''boolean''"
| "typeof (JNum n) = ''number''"
| "typeof (JBigInt n) = ''bigint''"
| "typeof (JStr s) = ''string''"
| "typeof (JArr xs) = ''object''"
| "typeof (JObj ps) = ''object''"
| "typeof (JError n m) = ''object''"

text \<open>\<open>Array.isArray(x)\<close> and \<open>x.length\<close> of an array.\<close>

fun isArray :: "jsval \<Rightarrow> bool" where
  "isArray (JArr xs) = True"
| "isArray v = False"

fun array_length :: "jsval \<Rightarrow> nat" where
  "array_length (JArr xs) = length xs"
| "array_length v = 0"

text \<open>
  \<open>k in x\<close> and \<open>x.k\<close> for a name \<open>k\<close> that is not an array index, on a value \<open>x\<close> that is
  neither null nor undefined. Only own properties are modelled: the names the pages ask
  for (\<open>generated_text\<close>, \<open>role\<close>, \<open>content\<close>) are not on any built-in prototype.
\<close>

fun has_property :: "string \<Rightarrow> jsval \<Rightarrow> bool" where
  "has_property k (JObj ps) = (k \<in> set (map fst ps))"
| "has_property k (JError n m) = (k = ''message'')"
| "has_property k v = False"

fun get_property :: "string \<Rightarrow> jsval \<Rightarrow> jsval" where
  "get_property k (JObj ps) = (case map_of ps k of Some v \<Rightarrow> v | None \<Rightarrow> JUndefined)"
| "get_property k (JError n m) = (if k = ''message'' then JStr m else JUndefined)"
| "get_property k v = JUndefined"

text \<open>Decimal digits of a natural number, as in the name of an index property.\<close>

definition digit_char :: "nat \<Rightarrow> char" where
  "digit_char d = ''0123456789abcdef'' ! d"

fun show_nat :: "nat \<Rightarrow> string" where
  "show_nat n = (if n < 10 then [digit_char n] else show_nat (n div 10) @ [digit_char (n mod 10)])"

text \<open>
  \<open>x[i]\<close> on a value that is neither null nor undefined: out of range an array (or a
  string) yields \<open>undefined\<close>; on a plain object the index is the property named by its
  decimal digits.
\<close>

fun index :: "jsval \<Rightarrow> nat \<Rightarrow> jsval" where
  "index (JArr xs) i = (if i < length xs then xs ! i else JUndefined)"
| "index (JStr s) i = (if i < length s then JStr [s ! i] else JUndefined)"
| "index (JObj ps) i = get_property (show_nat i) (JObj ps)"
| "index v i = JUndefined"

definition nullish :: "jsval \<Rightarrow> bool" where
  "nullish v = (v = JUndefined \<or> v = JNull)"

text \<open>Truthiness, as used by \<open>output || "\<dots>"\<close>.\<close>

fun truthy :: "jsval \<Rightarrow> bool" where
  "truthy JUndefined = False"
| "truthy JNull = False"
| "truthy (JBool b) = b"
| "truthy (JNum n) = (n \<noteq> 0)"
| "truthy (JBigInt n) = (n \<noteq> 0)"
| "truthy (JStr s) = (s \<noteq> [])"
| "truthy v = True"

section \<open>Built-ins of the runtime: number printing, \<open>String\<close>, \<open>JSON.stringify\<close>\<close>

definition show_int :: "int \<Rightarrow> string" where
  "show_int i = (if i < 0 then CHR ''-'' # show_nat (nat (- i)) else show_nat (nat i))"

text \<open>
  \<open>String(x)\<close>, which is also what a template literal applies to an interpolated value.
  An array is its elements joined by commas, null and undefined elements printing as
  nothing; a plain object is \<open>[object Object]\<close>; an error is \<open>name: message\<close>.
\<close>

fun String_js :: "jsval \<Rightarrow> string"
  and join_elems :: "jsval list \<Rightarrow> string"
where
  "String_js JUndefined = ''undefined''"
| "String_js JNull = ''null''"
| "String_js (JBool b) = (if b then ''true'' else ''false'')"
| "String_js (JNum n) = show_int n"
| "String_js (JBigInt n) = show_int n"
| "String_js (JStr s) = s"
| "String_js (JArr xs) = join_elems xs"
| "String_js (JObj ps) = ''[object Object]''"
| "String_js (JError n m) = (if n = [] then m else if m = [] then n else n @ '': '' @ m)"
| "join_elems [] = []"
| "join_elems (x # xs) =
     (if x = JUndefined \<or> x = JNull then [] else String_js x)
     @ (if xs = [] then [] else CHR '','' # join_elems xs)"

text \<open>
  \<open>JSON.stringify(value, null, gap)\<close>. \<open>QuoteJSONString\<close> escapes the quote, the backslash
  and the control characters. \<open>SerializeJSONProperty\<close> yields \<open>None\<close> where the built-in
  yields \<open>undefined\<close>, and \<open>Inl\<close> of the thrown \<open>TypeError\<close> on a BigInt (the message
  is the engine's; nothing below depends on it). An undefined array element prints as
  \<open>null\<close>, an undefined property is left out, and an \<open>Error\<close> has no enumerable property.
\<close>

definition json_escape :: "char \<Rightarrow> string" where
  "json_escape c =
     (let n = (of_char c :: nat) in
      if n = 0x08 then [CHR 0x5C, CHR ''b'']
      else if n = 0x09 then [CHR 0x5C, CHR ''t'']
      else if n = 0x0A then [CHR 0x5C, CHR ''n'']
      else if n = 0x0C then [CHR 0x5C, CHR ''f'']
      else if n = 0x0D then [CHR 0x5C, CHR ''r'']
      else if n < 0x20 then
        [CHR 0x5C, CHR ''u'', CHR ''0'', CHR ''0'', digit_char (n div 16), digit_char (n mod 16)]
      else if n = 0x22 then [CHR 0x5C, CHR 0x22]
      else if n = 0x5C then [CHR 0x5C, CHR 0x5C]
      else [c])"

definition QuoteJSONString :: "string \<Rightarrow> string" where
  "QuoteJSONString s = CHR 0x22 # concat (map json_escape s) @ [CHR 0x22]"

fun join_with :: "string \<Rightarrow> string list \<Rightarrow> string" where
  "join_with sep [] = []"
| "join_with sep [p] = p"
| "join_with sep (p # q # ps) = p @ sep @ join_with sep (q # ps)"

definition wrap_partial :: "string \<Rightarrow> string \<Rightarrow> string \<Rightarrow> string \<Rightarrow> string list \<Rightarrow> string" where
  "wrap_partial opening closing gap stepback partial =
     (if partial = [] then opening @ closing
      else if gap = [] then opening @ join_with '','' partial @ closing
      else opening @ [CHR 0x0A] @ (stepback @ gap)
           @ join_with ('','' @ [CHR 0x0A] @ (stepback @ gap)) partial
           @ [CHR 0x0A] @ stepback @ closing)"

fun SerializeJSONProperty :: "string \<Rightarrow> string \<Rightarrow> jsval \<Rightarrow> jsval + string option"
  and SerializeJSONArray :: "string \<Rightarrow> string \<Rightarrow> jsval list \<Rightarrow> jsval + string list"
  and SerializeJSONObject :: "string \<Rightarrow> string \<Rightarrow> (string \<times> jsval) list \<Rightarrow> jsval + string list"
where
  "SerializeJSONProperty gap ind JUndefined = Inr None"
| "SerializeJSONProperty gap ind JNull = Inr (Some ''null'')"
| "SerializeJSONProperty gap ind (JBool b) = Inr (Some (if b then ''true'' else ''false''))"
| "SerializeJSONProperty gap ind (JNum n) = Inr (Some (show_int n))"
| "SerializeJSONProperty gap ind (JBigInt n) =
     Inl (JError ''TypeError'' ''Do not know how to serialize a BigInt'')"
| "SerializeJSONProperty gap ind (JStr s) = Inr (Some (QuoteJSONString s))"
| "SerializeJSONProperty gap ind (JError n m) = Inr (Some ''{}'')"
| "SerializeJSONProperty gap ind (JArr xs) =
     (case SerializeJSONArray gap (ind @ gap) xs of
        Inl e \<Rightarrow> Inl e
      | Inr partial \<Rightarrow> Inr (Some (wrap_partial ''['' '']'' gap ind partial)))"
| "SerializeJSONProperty gap ind (JObj ps) =
     (case SerializeJSONObject gap (ind @ gap) ps of
        Inl e \<Rightarrow> Inl e
      | Inr partial \<Rightarrow> Inr (Some (wrap_partial ''{'' ''}'' gap ind partial)))"
| "SerializeJSONArray gap ind [] = Inr []"
| "SerializeJSONArray gap ind (x # xs) =
     (case SerializeJSONProperty gap ind x of
        Inl e \<Rightarrow> Inl e
      | Inr str \<Rightarrow>
          (case SerializeJSONArray gap ind xs of
             Inl e \<Rightarrow> Inl e
           | Inr rest \<Rightarrow> Inr ((case str of None \<Rightarrow> ''null'' | Some s \<Rightarrow> s) # rest)))"
| "SerializeJSONObject gap ind [] = Inr []"
| "SerializeJSONObject gap ind ((k, v) # ps) =
     (case SerializeJSONProperty gap ind v of
        Inl e \<Rightarrow> Inl e
      | Inr str \<Rightarrow>
          (case SerializeJSONObject gap ind ps of
             Inl e \<Rightarrow> Inl e
           | Inr rest \<Rightarrow>
               Inr (case str of
                      None \<Rightarrow> rest
                    | Some s \<Rightarrow>
                        (QuoteJSONString k @ '':'' @ (if gap = [] then [] else '' '') @ s) # rest)))"

text \<open>The call itself: \<open>Inl\<close> a thrown value, \<open>Inr\<close> the string or \<open>undefined\<close>.\<close>

definition JSON_stringify :: "string \<Rightarrow> jsval \<Rightarrow> jsval + jsval" where
  "JSON_stringify gap v =
     (case SerializeJSONProperty gap [] v of
        Inl e \<Rightarrow> Inl e
      | Inr None \<Rightarrow> Inr JUndefined
      | Inr (Some s) \<Rightarrow> Inr (JStr s))"

section \<open>Helpers of the pages\<close>

text \<open>
  \<open>getErrorMessage\<close> (the llama2.c page and both SmolLM2 pages): the message of an
  \<open>Error\<close> instance, otherwise \<open>String(err)\<close>.
\<close>

fun getErrorMessage :: "jsval \<Rightarrow> string" where
  "getErrorMessage (JError n m) = m"
| "getErrorMessage err = String_js err"

text \<open>
  The DistilGPT-2 and Phi-3 pages compute the message inline:
  \<open>e instanceof Error ? e.message : typeof e === "string" ? e : JSON.stringify(e)\<close>.
  The last alternative may yield \<open>undefined\<close> or throw.
\<close>

fun message_of :: "jsval \<Rightarrow> jsval + jsval" where
  "message_of (JError n m) = Inr (JStr m)"
| "message_of e = (if typeof e = ''string'' then Inr e else JSON_stringify [] e)"

subsection \<open>Phi-3 page: \<open>isChatMessage\<close> and \<open>extractText\<close>\<close>

definition isChatMessage :: "jsval \<Rightarrow> bool" where
  "isChatMessage x =
     (typeof x = ''object'' \<and> x \<noteq> JNull
      \<and> has_property ''role'' x \<and> has_property ''content'' x
      \<and> typeof (get_property ''role'' x) = ''string''
      \<and> typeof (get_property ''content'' x) = ''string'')"

definition getGeneratedText :: "jsval \<Rightarrow> jsval" where
  "getGeneratedText obj =
     (if typeof obj = ''object'' \<and> obj \<noteq> JNull \<and> has_property ''generated_text'' obj
      then get_property ''generated_text'' obj
      else JUndefined)"

text \<open>
  \<open>extractText\<close> of the Phi-3 page. \<open>first_item\<close> is the block guarded by
  \<open>Array.isArray(result) && result.length > 0\<close>: \<open>Some\<close> when it returns, \<open>None\<close> when
  control falls through to the single-object block and the fallback.
\<close>

definition extractText :: "jsval \<Rightarrow> jsval + jsval" where
  "extractText result =
     (let first_item =
        (if isArray result \<and> 0 < array_length result then
           (let gt = getGeneratedText (index result 0) in
            if typeof gt = ''string'' then Some (Inr gt)
            else if isArray gt \<and> 0 < array_length gt then
              (let last_msg = index gt (array_length gt - 1) in
               if isChatMessage last_msg then Some (Inr (get_property ''content'' last_msg))
               else Some (JSON_stringify [] gt))
            else None)
         else None)
      in case first_item of
           Some r \<Rightarrow> r
         | None \<Rightarrow>
             (let gt = getGeneratedText result in
              if typeof gt = ''string'' then Inr gt
              else if isArray gt \<and> 0 < array_length gt then
                (let last_msg = index gt (array_length gt - 1) in
                 if isChatMessage last_msg then Inr (get_property ''content'' last_msg)
                 else JSON_stringify [] gt)
              else if typeof result = ''string'' then Inr result
              else JSON_stringify [] result))"

subsection \<open>DistilGPT-2 page: \<open>isTextGenItem\<close> and the extraction inside the generator\<close>

definition isTextGenItem :: "jsval \<Rightarrow> bool" where
  "isTextGenItem x =
     (typeof x = ''object'' \<and> x \<noteq> JNull
      \<and> has_property ''generated_text'' x
      \<and> typeof (get_property ''generated_text'' x) = ''string'')"

definition textOfResult :: "jsval \<Rightarrow> jsval + jsval" where
  "textOfResult result =
     (if isArray result \<and> 0 < array_length result \<and> isTextGenItem (index result 0)
      then Inr (get_property ''generated_text'' (index result 0))
      else if isTextGenItem result then Inr (get_property ''generated_text'' result)
      else if typeof result = ''string'' then Inr result
      else JSON_stringify [] result)"

subsection \<open>SmolLM2 pages: \<open>extractText\<close>\<close>

text \<open>
  Both SmolLM2 pages define the same helper: \<open>result?.[0]?.generated_text\<close> (below
  \<open>first_generated_text\<close>), then
  \<open>JSON.stringify(result, null, 2)\<close> inside \<open>try\<close>, and \<open>String(result)\<close> in \<open>catch\<close>.
\<close>

definition first_generated_text :: "jsval \<Rightarrow> jsval" where
  "first_generated_text result =
     (if nullish result then JUndefined
      else (let r0 = index result 0 in
            if nullish r0 then JUndefined else get_property ''generated_text'' r0))"

definition extractText_SmolLM2 :: "jsval \<Rightarrow> jsval + jsval" where
  "extractText_SmolLM2 result =
     (let v = first_generated_text result
      in if typeof v = ''string'' then Inr v
         else (case JSON_stringify ''  '' result of
                 Inr s \<Rightarrow> Inr s
               | Inl e \<Rightarrow> Inr (JStr (String_js result))))"

subsection \<open>llama2.c page: \<open>result[0]?.generated_text ?? ""\<close>\<close>

text \<open>
  Indexing \<open>null\<close> or \<open>undefined\<close> throws a \<open>TypeError\<close> (the message is the engine's).
\<close>

definition generated_text_or_empty :: "jsval \<Rightarrow> jsval + jsval" where
  "generated_text_or_empty result =
     (if nullish result then
        Inl (JError ''TypeError''
               (''Cannot read properties of '' @ String_js result @ '' (reading '' @ [CHR 0x27]
                @ ''0'' @ [CHR 0x27] @ '')''))
      else
        (let r0 = index result 0;
             gt = (if nullish r0 then JUndefined else get_property ''generated_text'' r0)
         in Inr (if nullish gt then JStr [] else gt)))"

section \<open>The library boundary\<close>

text \<open>
  The pipeline is opaque. A handle is named by a number; the flag says whether the object
  has a \<open>dispose\<close> method (the disposable page declares it optional). Every call into the
  library is recorded in a log kept beside the page state, and the outcome of an awaited
  call is an input of the step that resumes after it: \<open>Inl\<close> the thrown value, \<open>Inr\<close> the
  result.
\<close>

datatype pipeline = Pipeline nat bool

fun has_dispose :: "pipeline \<Rightarrow> bool" where
  "has_dispose (Pipeline i d) = d"

record pipeline_options =
  device :: "string option"
  dtype :: "string option"

record TextGenOptions =
  max_new_tokens :: "nat option"
  temperature :: "rat option"
  top_p :: "rat option"
  do_sample :: "bool option"
  repetition_penalty :: "rat option"

datatype lib_call =
    ImportTransformers
  | SetEnv string bool
  | CreatePipeline string string "pipeline_options option"
  | Generate pipeline jsval TextGenOptions
  | Dispose pipeline

text \<open>
  An asynchronous function runs in steps separated by its \<open>await\<close>s. Where a page loads
  its model from the mount effect, the load is at one of these points.
\<close>

datatype load_pc = LoadNotStarted | LoadAwaitImport | LoadAwaitPipeline | LoadFinished


definition newlines :: string where
  "newlines = [CHR 0x0A, CHR 0x0A]"

definition dash :: string where
  "dash = [CHR 0xE2, CHR 0x80, CHR 0x94]"

section \<open>The llama2.c-stories15M page\<close>

text \<open>
  The React state of the page, the \<open>cancelled\<close> variable of the mount effect, the await
  points of \<open>loadModel\<close> and \<open>generate\<close>, and the call log. State updates made in one
  step are rendered together.
\<close>

record llama_page =
  ready_ll :: bool
  loading_ll :: bool
  generating_ll :: bool
  prompt_ll :: string
  output_ll :: jsval
  generator_ll :: "pipeline option"
  cancelled_ll :: bool
  loadModel_pc_ll :: load_pc
  generate_awaiting_ll :: bool
  calls_ll :: "lib_call list"

definition llama_initial :: llama_page where
  "llama_initial =
     \<lparr>ready_ll = False, loading_ll = False, generating_ll = False,
      prompt_ll = ''Once upon a time,'', output_ll = JStr [], generator_ll = None,
      cancelled_ll = False, loadModel_pc_ll = LoadNotStarted, generate_awaiting_ll = False,
      calls_ll = []\<rparr>"

definition loadModel_ll_start :: "llama_page \<Rightarrow> llama_page" where
  "loadModel_ll_start s =
     s\<lparr>loading_ll := True, output_ll := JStr [],
       calls_ll := calls_ll s @ [ImportTransformers], loadModel_pc_ll := LoadAwaitImport\<rparr>"

definition loadModel_ll_finally :: "llama_page \<Rightarrow> llama_page" where
  "loadModel_ll_finally s =
     (if \<not> cancelled_ll s then s\<lparr>loading_ll := False\<rparr> else s)\<lparr>loadModel_pc_ll := LoadFinished\<rparr>"

definition loadModel_ll_catch :: "jsval \<Rightarrow> llama_page \<Rightarrow> llama_page" where
  "loadModel_ll_catch err s =
     loadModel_ll_finally
       (if \<not> cancelled_ll s
        then s\<lparr>output_ll := JStr (''Failed to load model.'' @ newlines @ getErrorMessage err)\<rparr>
        else s)"

definition loadModel_ll_imported :: "jsval + unit \<Rightarrow> llama_page \<Rightarrow> llama_page" where
  "loadModel_ll_imported imported s =
     (case imported of
        Inl err \<Rightarrow> loadModel_ll_catch err s
      | Inr u \<Rightarrow>
          s\<lparr>calls_ll := calls_ll s
                 @ [CreatePipeline ''text-generation'' ''Xenova/llama2.c-stories15M'' None],
            loadModel_pc_ll := LoadAwaitPipeline\<rparr>)"

definition loadModel_ll_created :: "jsval + pipeline \<Rightarrow> llama_page \<Rightarrow> llama_page" where
  "loadModel_ll_created created s =
     (case created of
        Inl err \<Rightarrow> loadModel_ll_catch err s
      | Inr gen \<Rightarrow>
          loadModel_ll_finally
            (if \<not> cancelled_ll s then s\<lparr>generator_ll := Some gen, ready_ll := True\<rparr> else s))"

text \<open>The cleanup returned by the effect.\<close>

definition cleanup_ll :: "llama_page \<Rightarrow> llama_page" where
  "cleanup_ll s = s\<lparr>cancelled_ll := True\<rparr>"

definition generate_options_ll :: TextGenOptions where
  "generate_options_ll =
     \<lparr>max_new_tokens = Some 50, temperature = Some (8 / 10), top_p = Some (9 / 10),
      do_sample = Some True, repetition_penalty = None\<rparr>"

text \<open>\<open>generate\<close> reads \<open>generator\<close> and \<open>prompt\<close> as rendered when the button was clicked.\<close>

definition generate_click :: "llama_page \<Rightarrow> llama_page" where
  "generate_click s =
     (case generator_ll s of
        None \<Rightarrow> s
      | Some generator \<Rightarrow>
          s\<lparr>generating_ll := True, output_ll := JStr [],
            calls_ll := calls_ll s @ [Generate generator (JStr (prompt_ll s)) generate_options_ll],
            generate_awaiting_ll := True\<rparr>)"

definition generate_settled :: "jsval + jsval \<Rightarrow> llama_page \<Rightarrow> llama_page" where
  "generate_settled settled s =
     (let failed = (\<lambda>err. s\<lparr>output_ll := JStr (''Generation failed.'' @ newlines @ getErrorMessage err)\<rparr>);
          s' = (case settled of
                  Inl err \<Rightarrow> failed err
                | Inr result \<Rightarrow>
                    (case generated_text_or_empty result of
                       Inl err \<Rightarrow> failed err
                     | Inr text \<Rightarrow> s\<lparr>output_ll := text\<rparr>))
      in s'\<lparr>generating_ll := False, generate_awaiting_ll := False\<rparr>)"



definition output_shown_ll :: "llama_page \<Rightarrow> jsval" where
  "output_shown_ll s = (if truthy (output_ll s) then output_ll s else JStr dash)"


section \<open>The DistilGPT-2 page and the Phi-3 page\<close>

text \<open>
  The two pages have the same \<open>init\<close> and \<open>onGenerate\<close>; they differ in the model, the
  status texts, the input and options given to the pipeline, and the extraction of the
  text. The generator is kept in a ref, so \<open>onGenerate\<close> reads its current value.
  An asynchronous function that throws is recorded in \<open>rejections_rp\<close>.
\<close>

datatype ref_page = DistilGPT2 | Phi3

record ref_state =
  isLoadingModel :: bool
  status_rp :: string
  prompt_rp :: string
  output_rp :: jsval
  isGenerating :: bool
  generatorRef :: "pipeline option"
  cancelled_rp :: bool
  init_pc :: load_pc
  onGenerate_awaiting :: bool
  rejections_rp :: "jsval list"
  calls_rp :: "lib_call list"

fun model_rp :: "ref_page \<Rightarrow> string" where
  "model_rp DistilGPT2 = ''Xenova/distilgpt2''"
| "model_rp Phi3 = ''Xenova/Phi-3-mini-4k-instruct''"

fun initial_prompt_rp :: "ref_page \<Rightarrow> string" where
  "initial_prompt_rp DistilGPT2 = ''Once upon a time,''"
| "initial_prompt_rp Phi3 = ''Solve the equation: x^2 - 3x + 2 = 0''"

fun importing_status :: "ref_page \<Rightarrow> string" where
  "importing_status DistilGPT2 = ''Importing transformers...''"
| "importing_status Phi3 = ''Importing Transformers.js...''"

fun downloading_status :: "ref_page \<Rightarrow> string" where
  "downloading_status DistilGPT2 =
     ''Downloading/initializing model (first run may take a bit)...''"
| "downloading_status Phi3 =
     ''Downloading/initializing Phi-3 (first load can be large; WebGPU recommended)...''"

text \<open>The generator built by \<open>init\<close>: what it passes to the pipeline and what it returns.\<close>

fun generator_input :: "ref_page \<Rightarrow> string \<Rightarrow> jsval" where
  "generator_input DistilGPT2 text = JStr text"
| "generator_input Phi3 text = JArr [JObj [(''role'', JStr ''user''), (''content'', JStr text)]]"

fun generator_options :: "ref_page \<Rightarrow> TextGenOptions" where
  "generator_options DistilGPT2 =
     \<lparr>max_new_tokens = Some 64, temperature = Some (8 / 10), top_p = Some (9 / 10),
      do_sample = Some True, repetition_penalty = None\<rparr>"
| "generator_options Phi3 =
     \<lparr>max_new_tokens = Some 256, temperature = None, top_p = None,
      do_sample = Some False, repetition_penalty = None\<rparr>"

fun generator_text :: "ref_page \<Rightarrow> jsval \<Rightarrow> jsval + jsval" where
  "generator_text DistilGPT2 result = textOfResult result"
| "generator_text Phi3 result = extractText result"

definition ref_initial :: "ref_page \<Rightarrow> ref_state" where
  "ref_initial p =
     \<lparr>isLoadingModel = True, status_rp = ''Loading model...'', prompt_rp = initial_prompt_rp p,
      output_rp = JStr [], isGenerating = False, generatorRef = None, cancelled_rp = False,
      init_pc = LoadNotStarted, onGenerate_awaiting = False, rejections_rp = [],
      calls_rp = []\<rparr>"

definition init_start :: "ref_page \<Rightarrow> ref_state \<Rightarrow> ref_state" where
  "init_start p s =
     s\<lparr>isLoadingModel := True, status_rp := importing_status p,
       calls_rp := calls_rp s @ [ImportTransformers], init_pc := LoadAwaitImport\<rparr>"

definition init_finally :: "ref_state \<Rightarrow> ref_state" where
  "init_finally s = s\<lparr>isLoadingModel := False, init_pc := LoadFinished\<rparr>"

definition init_catch :: "jsval \<Rightarrow> ref_state \<Rightarrow> ref_state" where
  "init_catch e s =
     (case message_of e of
        Inr message \<Rightarrow>
          init_finally (s\<lparr>status_rp := ''Error loading model: '' @ String_js message\<rparr>)
      | Inl thrown \<Rightarrow> (init_finally s)\<lparr>rejections_rp := rejections_rp s @ [thrown]\<rparr>)"

definition init_imported :: "ref_page \<Rightarrow> jsval + unit \<Rightarrow> ref_state \<Rightarrow> ref_state" where
  "init_imported p imported s =
     (case imported of
        Inl e \<Rightarrow> init_catch e s
      | Inr u \<Rightarrow>
          if cancelled_rp s then init_finally s
          else s\<lparr>status_rp := downloading_status p,
                 calls_rp := calls_rp s @ [CreatePipeline ''text-generation'' (model_rp p) None],
                 init_pc := LoadAwaitPipeline\<rparr>)"

definition init_created :: "jsval + pipeline \<Rightarrow> ref_state \<Rightarrow> ref_state" where
  "init_created created s =
     (case created of
        Inl e \<Rightarrow> init_catch e s
      | Inr pipe \<Rightarrow>
          if cancelled_rp s then init_finally s
          else init_finally (s\<lparr>generatorRef := Some pipe, status_rp := ''Model ready.''\<rparr>))"

definition cleanup_rp :: "ref_state \<Rightarrow> ref_state" where
  "cleanup_rp s = s\<lparr>cancelled_rp := True\<rparr>"

definition onGenerate_click :: "ref_page \<Rightarrow> ref_state \<Rightarrow> ref_state" where
  "onGenerate_click p s =
     (case generatorRef s of
        None \<Rightarrow> s
      | Some pipe \<Rightarrow>
          s\<lparr>isGenerating := True, output_rp := JStr [],
            calls_rp := calls_rp s
              @ [Generate pipe (generator_input p (prompt_rp s)) (generator_options p)],
            onGenerate_awaiting := True\<rparr>)"

definition onGenerate_settled :: "ref_page \<Rightarrow> jsval + jsval \<Rightarrow> ref_state \<Rightarrow> ref_state" where
  "onGenerate_settled p settled s =
     (let awaited = (case settled of Inl e \<Rightarrow> Inl e | Inr result \<Rightarrow> generator_text p result);
          s' = (case awaited of
                  Inr text \<Rightarrow> s\<lparr>output_rp := text\<rparr>
                | Inl e \<Rightarrow>
                    (case message_of e of
                       Inr message \<Rightarrow> s\<lparr>output_rp := JStr (''Error: '' @ String_js message)\<rparr>
                     | Inl thrown \<Rightarrow> s\<lparr>rejections_rp := rejections_rp s @ [thrown]\<rparr>))
      in s'\<lparr>isGenerating := False, onGenerate_awaiting := False\<rparr>)"




section \<open>The disposable SmolLM2 page\<close>

text \<open>
  \<open>status\<close> is a string at run time. The pipeline handle is kept in a ref.
  \<open>runOnceAndFree\<close> awaits \<open>loadPipeline\<close> (which returns the handle already held, or
  awaits the import and the construction), then the generation, then \<open>disposePipeline\<close>
  in \<open>finally\<close>. Nothing follows the awaited \<open>dispose()\<close> and its error is ignored, so
  the run is over for the page state once \<open>finally\<close> has issued it. \<open>run_prompt\<close> is
  the prompt the running invocation closed over.
\<close>

datatype run_pc_dp = DpIdle | DpAwaitCached pipeline | DpAwaitImport | DpAwaitPipeline | DpAwaitGenerate

record disposable_page =
  status_dp :: string
  prompt_dp :: string
  output_dp :: jsval
  pipelineRef :: "pipeline option"
  run_pc :: run_pc_dp
  run_prompt :: string
  calls_dp :: "lib_call list"

definition modelId_SmolLM2 :: string where
  "modelId_SmolLM2 = ''HuggingFaceTB/SmolLM2-135M-Instruct''"

definition disposable_initial :: disposable_page where
  "disposable_initial =
     \<lparr>status_dp = ''idle'',
      prompt_dp = ''Answer in one sentence: What is the capital of France?'',
      output_dp = JStr [], pipelineRef = None, run_pc = DpIdle, run_prompt = [],
      calls_dp = []\<rparr>"

definition generate_options_dp :: TextGenOptions where
  "generate_options_dp =
     \<lparr>max_new_tokens = Some 64, temperature = Some (2 / 10), top_p = Some (9 / 10),
      do_sample = Some True, repetition_penalty = None\<rparr>"

definition disposePipeline :: "disposable_page \<Rightarrow> disposable_page" where
  "disposePipeline s =
     (let p = pipelineRef s in
      s\<lparr>pipelineRef := None,
        calls_dp := calls_dp s
          @ (case p of None \<Rightarrow> [] | Some q \<Rightarrow> if has_dispose q then [Dispose q] else [])\<rparr>)"

definition runOnceAndFree_dp_finally :: "disposable_page \<Rightarrow> disposable_page" where
  "runOnceAndFree_dp_finally s = (disposePipeline s)\<lparr>run_pc := DpIdle\<rparr>"

definition runOnceAndFree_dp_catch :: "jsval \<Rightarrow> disposable_page \<Rightarrow> disposable_page" where
  "runOnceAndFree_dp_catch err s =
     runOnceAndFree_dp_finally
       (s\<lparr>status_dp := ''error'',
          output_dp := JStr (''Generation failed.'' @ newlines @ getErrorMessage err)\<rparr>)"

definition runOnceAndFree_dp_click :: "disposable_page \<Rightarrow> disposable_page" where
  "runOnceAndFree_dp_click s =
     (let s1 = s\<lparr>status_dp := ''loading'', output_dp := JStr [], run_prompt := prompt_dp s\<rparr> in
      case pipelineRef s1 of
        Some p \<Rightarrow> s1\<lparr>run_pc := DpAwaitCached p\<rparr>
      | None \<Rightarrow> s1\<lparr>calls_dp := calls_dp s1 @ [ImportTransformers], run_pc := DpAwaitImport\<rparr>)"

definition loadPipeline_imported :: "jsval + unit \<Rightarrow> disposable_page \<Rightarrow> disposable_page" where
  "loadPipeline_imported imported s =
     (case imported of
        Inl err \<Rightarrow> runOnceAndFree_dp_catch err s
      | Inr u \<Rightarrow>
          s\<lparr>calls_dp := calls_dp s
                 @ [SetEnv ''allowLocalModels'' False, SetEnv ''useBrowserCache'' True,
                    CreatePipeline ''text-generation'' modelId_SmolLM2
                      (Some \<lparr>device = Some ''wasm'', dtype = Some ''q4''\<rparr>)],
            run_pc := DpAwaitPipeline\<rparr>)"

definition runOnceAndFree_dp_loaded :: "pipeline \<Rightarrow> disposable_page \<Rightarrow> disposable_page" where
  "runOnceAndFree_dp_loaded gen s =
     s\<lparr>status_dp := ''running'',
       calls_dp := calls_dp s @ [Generate gen (JStr (run_prompt s)) generate_options_dp],
       run_pc := DpAwaitGenerate\<rparr>"

definition loadPipeline_created :: "jsval + pipeline \<Rightarrow> disposable_page \<Rightarrow> disposable_page" where
  "loadPipeline_created created s =
     (case created of
        Inl err \<Rightarrow> runOnceAndFree_dp_catch err s
      | Inr p \<Rightarrow> runOnceAndFree_dp_loaded p (s\<lparr>pipelineRef := Some p\<rparr>))"

definition runOnceAndFree_dp_settled :: "jsval + jsval \<Rightarrow> disposable_page \<Rightarrow> disposable_page" where
  "runOnceAndFree_dp_settled settled s =
     (case settled of
        Inl err \<Rightarrow> runOnceAndFree_dp_catch err s
      | Inr result \<Rightarrow>
          (case extractText_SmolLM2 result of
             Inl err \<Rightarrow> runOnceAndFree_dp_catch err s
           | Inr text \<Rightarrow> runOnceAndFree_dp_finally (s\<lparr>output_dp := text, status_dp := ''idle''\<rparr>)))"

definition setPrompt_dp :: "string \<Rightarrow> disposable_page \<Rightarrow> disposable_page" where
  "setPrompt_dp v s = s\<lparr>prompt_dp := v\<rparr>"

definition button_disabled_dp :: "disposable_page \<Rightarrow> bool" where
  "button_disabled_dp s = (status_dp s = ''loading'' \<or> status_dp s = ''running'')"

text \<open>
  One run from the click to \<open>finally\<close>, given the outcomes of the calls it awaits (an
  outcome is not looked at when the run does not get to that call).
\<close>

definition runOnceAndFree_dp ::
  "jsval + unit \<Rightarrow> jsval + pipeline \<Rightarrow> jsval + jsval \<Rightarrow> disposable_page \<Rightarrow> disposable_page" where
  "runOnceAndFree_dp imported created settled s =
     (let s1 = runOnceAndFree_dp_click s in
      case run_pc s1 of
        DpAwaitCached p \<Rightarrow> runOnceAndFree_dp_settled settled (runOnceAndFree_dp_loaded p s1)
      | _ \<Rightarrow>
          (let s2 = loadPipeline_imported imported s1 in
           if run_pc s2 = DpIdle then s2
           else (let s3 = loadPipeline_created created s2 in
                 if run_pc s3 = DpIdle then s3 else runOnceAndFree_dp_settled settled s3)))"

inductive reachable_dp :: "disposable_page \<Rightarrow> bool" where
  dp_initial: "reachable_dp disposable_initial"
| dp_click: "reachable_dp s \<Longrightarrow> \<not> button_disabled_dp s \<Longrightarrow> reachable_dp (runOnceAndFree_dp_click s)"
| dp_cached: "reachable_dp s \<Longrightarrow> run_pc s = DpAwaitCached p
     \<Longrightarrow> reachable_dp (runOnceAndFree_dp_loaded p s)"
| dp_imported: "reachable_dp s \<Longrightarrow> run_pc s = DpAwaitImport
     \<Longrightarrow> reachable_dp (loadPipeline_imported imported s)"
| dp_created: "reachable_dp s \<Longrightarrow> run_pc s = DpAwaitPipeline
     \<Longrightarrow> reachable_dp (loadPipeline_created created s)"
| dp_settled: "reachable_dp s \<Longrightarrow> run_pc s = DpAwaitGenerate
     \<Longrightarrow> reachable_dp (runOnceAndFree_dp_settled settled s)"
| dp_typed: "reachable_dp s \<Longrightarrow> reachable_dp (setPrompt_dp v s)"

section \<open>The min-footprint SmolLM2 page\<close>

text \<open>
  \<open>generator\<close> is React state here, so \<open>runOnceAndFree\<close> sees the value rendered when
  the button was clicked, for the whole invocation: the await point after the on-demand
  \<open>loadModel\<close> keeps the \<open>generator\<close> and \<open>prompt\<close> the invocation closed over.
  \<open>navigator\<close> is \<open>None\<close> where the global is not defined, otherwise an object listing
  the properties \<open>in\<close> finds on it.
\<close>

datatype run_pc_mf = MfIdle | MfAwaitLoad "pipeline option" string | MfAwaitGenerate

record minfootprint_page =
  ready_mf :: bool
  loadingModel :: bool
  generating_mf :: bool
  prompt_mf :: string
  output_mf :: jsval
  generator_mf :: "pipeline option"
  loadModel_pc_mf :: load_pc
  run_pc_mf :: run_pc_mf
  calls_mf :: "lib_call list"

definition minfootprint_initial :: minfootprint_page where
  "minfootprint_initial =
     \<lparr>ready_mf = False, loadingModel = False, generating_mf = False,
      prompt_mf = ''Answer in one sentence: What is the capital of France?'',
      output_mf = JStr [], generator_mf = None, loadModel_pc_mf = LoadNotStarted,
      run_pc_mf = MfIdle, calls_mf = []\<rparr>"

definition generate_options_mf :: TextGenOptions where
  "generate_options_mf =
     \<lparr>max_new_tokens = Some 64, temperature = Some (2 / 10), top_p = Some (9 / 10),
      do_sample = Some True, repetition_penalty = Some (105 / 100)\<rparr>"

definition loadModel_mf_start :: "minfootprint_page \<Rightarrow> minfootprint_page" where
  "loadModel_mf_start s =
     s\<lparr>loadingModel := True, output_mf := JStr [],
       calls_mf := calls_mf s @ [ImportTransformers], loadModel_pc_mf := LoadAwaitImport\<rparr>"

definition loadModel_mf_finally :: "minfootprint_page \<Rightarrow> minfootprint_page" where
  "loadModel_mf_finally s = s\<lparr>loadingModel := False, loadModel_pc_mf := LoadFinished\<rparr>"

definition loadModel_mf_catch :: "jsval \<Rightarrow> minfootprint_page \<Rightarrow> minfootprint_page" where
  "loadModel_mf_catch err s =
     loadModel_mf_finally
       (s\<lparr>output_mf := JStr (''Failed to load model.'' @ newlines @ getErrorMessage err),
          ready_mf := False, generator_mf := None\<rparr>)"

definition hasWebGPU :: "jsval option \<Rightarrow> bool" where
  "hasWebGPU navigator =
     (case navigator of None \<Rightarrow> False | Some nav \<Rightarrow> has_property ''gpu'' nav)"

definition loadModel_mf_imported ::
  "jsval option \<Rightarrow> jsval + unit \<Rightarrow> minfootprint_page \<Rightarrow> minfootprint_page" where
  "loadModel_mf_imported navigator imported s =
     (case imported of
        Inl err \<Rightarrow> loadModel_mf_catch err s
      | Inr u \<Rightarrow>
          (let dev = (if hasWebGPU navigator then ''webgpu'' else ''wasm'') in
           s\<lparr>calls_mf := calls_mf s
                  @ [SetEnv ''allowLocalModels'' False,
                     CreatePipeline ''text-generation'' modelId_SmolLM2
                       (Some \<lparr>device = Some dev, dtype = None\<rparr>)],
             loadModel_pc_mf := LoadAwaitPipeline\<rparr>))"

definition loadModel_mf_created :: "jsval + pipeline \<Rightarrow> minfootprint_page \<Rightarrow> minfootprint_page" where
  "loadModel_mf_created created s =
     (case created of
        Inl err \<Rightarrow> loadModel_mf_catch err s
      | Inr gen \<Rightarrow> loadModel_mf_finally (s\<lparr>generator_mf := Some gen, ready_mf := True\<rparr>))"

text \<open>
  \<open>runOnceAndFree\<close> from its second \<open>if (!generator) return;\<close> on, with the values the
  invocation closed over.
\<close>

definition runOnceAndFree_mf_proceed ::
  "pipeline option \<Rightarrow> string \<Rightarrow> minfootprint_page \<Rightarrow> minfootprint_page" where
  "runOnceAndFree_mf_proceed generator prompt s =
     (case generator of
        None \<Rightarrow> s\<lparr>run_pc_mf := MfIdle\<rparr>
      | Some g \<Rightarrow>
          s\<lparr>generating_mf := True, output_mf := JStr [],
            calls_mf := calls_mf s @ [Generate g (JStr prompt) generate_options_mf],
            run_pc_mf := MfAwaitGenerate\<rparr>)"

definition runOnceAndFree_mf_click :: "minfootprint_page \<Rightarrow> minfootprint_page" where
  "runOnceAndFree_mf_click s =
     (let generator = generator_mf s; prompt = prompt_mf s in
      if generator = None
      then (loadModel_mf_start s)\<lparr>run_pc_mf := MfAwaitLoad generator prompt\<rparr>
      else runOnceAndFree_mf_proceed generator prompt s)"

text \<open>When \<open>loadModel\<close> has finished, an invocation awaiting it goes on.\<close>

definition resume_mf :: "minfootprint_page \<Rightarrow> minfootprint_page" where
  "resume_mf s =
     (case run_pc_mf s of
        MfAwaitLoad generator prompt \<Rightarrow>
          if loadModel_pc_mf s = LoadFinished then runOnceAndFree_mf_proceed generator prompt s
          else s
      | _ \<Rightarrow> s)"

definition runOnceAndFree_mf_settled :: "jsval + jsval \<Rightarrow> minfootprint_page \<Rightarrow> minfootprint_page" where
  "runOnceAndFree_mf_settled settled s =
     (let failed = (\<lambda>err. s\<lparr>output_mf := JStr (''Generation failed.'' @ newlines @ getErrorMessage err)\<rparr>);
          s' = (case settled of
                  Inl err \<Rightarrow> failed err
                | Inr result \<Rightarrow>
                    (case extractText_SmolLM2 result of
                       Inl err \<Rightarrow> failed err
                     | Inr text \<Rightarrow> s\<lparr>output_mf := text\<rparr>))
      in s'\<lparr>generating_mf := False, generator_mf := None, ready_mf := False, run_pc_mf := MfIdle\<rparr>)"

text \<open>The Clear button and the prompt box.\<close>

definition clear_mf :: "minfootprint_page \<Rightarrow> minfootprint_page" where
  "clear_mf s = s\<lparr>generator_mf := None, ready_mf := False, output_mf := JStr []\<rparr>"

definition setPrompt_mf :: "string \<Rightarrow> minfootprint_page \<Rightarrow> minfootprint_page" where
  "setPrompt_mf v s = s\<lparr>prompt_mf := v\<rparr>"

definition button_disabled_mf :: "minfootprint_page \<Rightarrow> bool" where
  "button_disabled_mf s = (generating_mf s \<or> loadingModel s)"

text \<open>
  A load from its start to its end, given the outcomes of the import and of the
  construction, followed by whatever was waiting for it.
\<close>

definition load_to_end_mf ::
  "jsval option \<Rightarrow> jsval + unit \<Rightarrow> jsval + pipeline \<Rightarrow> minfootprint_page \<Rightarrow> minfootprint_page" where
  "load_to_end_mf navigator imported created s =
     (let s1 = resume_mf (loadModel_mf_imported navigator imported s) in
      if loadModel_pc_mf s1 = LoadAwaitPipeline then resume_mf (loadModel_mf_created created s1)
      else s1)"

text \<open>
  The mount effect starts the first load; the page handles a click only after the effect
  has run, and only while the button is enabled.
\<close>

inductive reachable_mf :: "jsval option \<Rightarrow> minfootprint_page \<Rightarrow> bool"
  for navigator :: "jsval option" where
  mf_initial: "reachable_mf navigator minfootprint_initial"
| mf_mount: "reachable_mf navigator s \<Longrightarrow> loadModel_pc_mf s = LoadNotStarted
     \<Longrightarrow> reachable_mf navigator (loadModel_mf_start s)"
| mf_imported: "reachable_mf navigator s \<Longrightarrow> loadModel_pc_mf s = LoadAwaitImport
     \<Longrightarrow> reachable_mf navigator (resume_mf (loadModel_mf_imported navigator imported s))"
| mf_created: "reachable_mf navigator s \<Longrightarrow> loadModel_pc_mf s = LoadAwaitPipeline
     \<Longrightarrow> reachable_mf navigator (resume_mf (loadModel_mf_created created s))"
| mf_click: "reachable_mf navigator s \<Longrightarrow> loadModel_pc_mf s \<noteq> LoadNotStarted
     \<Longrightarrow> \<not> button_disabled_mf s \<Longrightarrow> reachable_mf navigator (runOnceAndFree_mf_click s)"
| mf_settled: "reachable_mf navigator s \<Longrightarrow> run_pc_mf s = MfAwaitGenerate
     \<Longrightarrow> reachable_mf navigator (runOnceAndFree_mf_settled settled s)"
| mf_clear: "reachable_mf navigator s \<Longrightarrow> loadModel_pc_mf s \<noteq> LoadNotStarted
     \<Longrightarrow> reachable_mf navigator (clear_mf s)"
| mf_typed: "reachable_mf navigator s \<Longrightarrow> loadModel_pc_mf s \<noteq> LoadNotStarted
     \<Longrightarrow> reachable_mf navigator (setPrompt_mf v s)"

section \<open>Notions used to state the properties\<close>

text \<open>
  The shape of a result, read off the data rather than through \<open>typeof\<close>, \<open>in\<close> and
  indexing: the \<open>generated_text\<close> an object carries, and the content of a chat message
  (an object whose \<open>role\<close> and \<open>content\<close> are strings).
\<close>

fun carried_generated_text :: "jsval \<Rightarrow> jsval option" where
  "carried_generated_text (JObj ps) = map_of ps ''generated_text''"
| "carried_generated_text v = None"

fun chat_message_content :: "jsval \<Rightarrow> string option" where
  "chat_message_content (JObj ps) =
     (case map_of ps ''role'' of
        Some (JStr r) \<Rightarrow> (case map_of ps ''content'' of Some (JStr c) \<Rightarrow> Some c | _ \<Rightarrow> None)
      | _ \<Rightarrow> None)"
| "chat_message_content v = None"

text \<open>
  The case analysis of the Phi-3 helper in words of shapes. \<open>text_from\<close> is what a
  carried \<open>generated_text\<close> determines: a string is returned as it is; a non-empty array
  gives the content of its last element when that is a chat message, and otherwise the
  JSON text of the array; anything else determines nothing. \<open>extractText_by_shape\<close>
  applies it to the first element of a non-empty array, then to the result itself, then
  returns a string result as it is, and in every remaining case the JSON text of the
  result.
\<close>

definition text_from :: "jsval option \<Rightarrow> (jsval + jsval) option" where
  "text_from carried =
     (case carried of
        Some (JStr s) \<Rightarrow> Some (Inr (JStr s))
      | Some (JArr (m # ms)) \<Rightarrow>
          Some (case chat_message_content (last (m # ms)) of
                  Some c \<Rightarrow> Inr (JStr c)
                | None \<Rightarrow> JSON_stringify [] (JArr (m # ms)))
      | _ \<Rightarrow> None)"

definition extractText_by_shape :: "jsval \<Rightarrow> jsval + jsval" where
  "extractText_by_shape result =
     (case text_from (case result of JArr (x # xs) \<Rightarrow> carried_generated_text x | _ \<Rightarrow> None) of
        Some t \<Rightarrow> t
      | None \<Rightarrow>
          (case text_from (carried_generated_text result) of
             Some t \<Rightarrow> t
           | None \<Rightarrow> (case result of JStr s \<Rightarrow> Inr (JStr s) | _ \<Rightarrow> JSON_stringify [] result)))"

text \<open>
  The block that \<open>extractText\<close> of the Phi-3 page writes out twice, once for the first
  item and once for the result itself.
\<close>

definition text_rule :: "jsval \<Rightarrow> (jsval + jsval) option" where
  "text_rule gt =
     (if typeof gt = ''string'' then Some (Inr gt)
      else if isArray gt \<and> 0 < array_length gt then
        (let last_msg = index gt (array_length gt - 1) in
         if isChatMessage last_msg then Some (Inr (get_property ''content'' last_msg))
         else Some (JSON_stringify [] gt))
      else None)"

text \<open>The llama2.c page after a successful load and a click on Generate.\<close>

definition llama_generating :: llama_page where
  "llama_generating =
     generate_click
       (loadModel_ll_created (Inr (Pipeline 0 True))
          (loadModel_ll_imported (Inr ()) (loadModel_ll_start llama_initial)))"

text \<open>Calls that construct a pipeline, and calls that run one.\<close>

fun is_create :: "lib_call \<Rightarrow> bool" where
  "is_create (CreatePipeline task model opts) = True"
| "is_create c = False"

fun is_generate :: "lib_call \<Rightarrow> bool" where
  "is_generate (Generate g input opts) = True"
| "is_generate c = False"

text \<open>Every call of a log that constructs a pipeline is the call \<open>x\<close>.\<close>

definition only_creates :: "lib_call \<Rightarrow> lib_call list \<Rightarrow> bool" where
  "only_creates x cs = (\<forall>c \<in> set cs. is_create c \<longrightarrow> c = x)"

text \<open>
  States used as examples: the disposable page awaiting the construction of its
  pipeline; the min-footprint page doing so in a browser whose \<open>navigator\<close> has \<open>gpu\<close>;
  the min-footprint page after a first run that loaded, generated and freed; the Phi-3
  page awaiting the import.
\<close>

definition disposable_loading :: disposable_page where
  "disposable_loading =
     loadPipeline_imported (Inr ()) (runOnceAndFree_dp_click disposable_initial)"

definition minfootprint_loading :: minfootprint_page where
  "minfootprint_loading =
     loadModel_mf_imported (Some (JObj [(''gpu'', JObj [])])) (Inr ())
       (loadModel_mf_start minfootprint_initial)"

definition minfootprint_freed :: minfootprint_page where
  "minfootprint_freed =
     runOnceAndFree_mf_settled (Inr (JArr [JObj [(''generated_text'', JStr ''Paris.'')]]))
       (runOnceAndFree_mf_click
          (load_to_end_mf None (Inr ()) (Inr (Pipeline 1 True))
             (loadModel_mf_start minfootprint_initial)))"

definition phi3_importing :: ref_state where
  "phi3_importing = init_start Phi3 (ref_initial Phi3)"

section \<open>Properties of the text-extraction helpers\<close>

lemma map_of_in_keys: "map_of ps k = Some v \<Longrightarrow> k \<in> fst ` set ps"
  by (induction ps) (auto split: if_splits)

lemma map_of_not_in_keys: "map_of ps k = None \<Longrightarrow> k \<notin> fst ` set ps"
  by (simp add: map_of_eq_None_iff)


lemma getGeneratedText_shape:
  "getGeneratedText x = (case carried_generated_text x of Some v \<Rightarrow> v | None \<Rightarrow> JUndefined)"
  by (cases x) (auto simp: getGeneratedText_def split: option.splits dest: map_of_in_keys)

lemma isChatMessage_shape: "isChatMessage x = (chat_message_content x \<noteq> None)"
  by (cases x)
    (auto simp: isChatMessage_def split: option.splits jsval.splits
      dest: map_of_in_keys map_of_not_in_keys)

lemma chat_content_shape:
  "chat_message_content x = Some c \<Longrightarrow> get_property ''content'' x = JStr c"
  by (cases x) (auto split: option.splits jsval.splits)

lemma text_from_None [simp]: "text_from None = None"
  by (simp add: text_from_def)

lemma text_rule_shape: "text_rule (getGeneratedText x) = text_from (carried_generated_text x)"
proof (cases "carried_generated_text x")
  case None
  then show ?thesis by (simp add: text_rule_def getGeneratedText_shape)
next
  case (Some gt)
  show ?thesis
  proof (cases gt)
    case (JArr ms)
    show ?thesis
    proof (cases ms)
      case Nil
      with Some JArr show ?thesis by (simp add: text_rule_def getGeneratedText_shape text_from_def)
    next
      case (Cons m ms')
      have "index gt (array_length gt - 1) = last (m # ms')"
        using JArr Cons by (simp add: last_conv_nth)
      with Some JArr Cons show ?thesis
        by (auto simp: text_rule_def getGeneratedText_shape text_from_def isChatMessage_shape Let_def
            dest: chat_content_shape split: option.splits)
    qed
  qed (use Some in \<open>simp_all add: text_rule_def getGeneratedText_shape text_from_def\<close>)
qed

lemma extractText_alt:
  "extractText result =
     (case (if isArray result \<and> 0 < array_length result
            then text_rule (getGeneratedText (index result 0)) else None) of
        Some r \<Rightarrow> r
      | None \<Rightarrow>
          (case text_rule (getGeneratedText result) of
             Some r \<Rightarrow> r
           | None \<Rightarrow> if typeof result = ''string'' then Inr result else JSON_stringify [] result))"
  by (simp add: extractText_def text_rule_def Let_def)

text \<open>
  Claim C1, as amended. For every result value the Phi-3 helper returns: the string, if
  the result is an array whose first element carries a string-valued \<open>generated_text\<close>;
  the last message's content, if that \<open>generated_text\<close> is a non-empty array whose last
  element is a chat message; the JSON text of that \<open>generated_text\<close>, if it is a
  non-empty array whose last element is not a chat message; the same three rules for a
  single object carrying \<open>generated_text\<close>; the result, if it is a string; and the JSON
  text of the result in every remaining case.
\<close>

theorem extractText_cases: "extractText result = extractText_by_shape result"
proof (cases result)
  case (JArr xs)
  then show ?thesis
    by (cases xs)
      (simp_all add: extractText_alt extractText_by_shape_def text_rule_shape split: option.splits)
qed (simp_all add: extractText_alt extractText_by_shape_def text_rule_shape split: option.splits)

theorem extractText_cases_witness:
  "extractText
     (JArr [JObj [(''generated_text'',
        JArr [JObj [(''role'', JStr ''user''), (''content'', JStr ''2+2?'')],
              JObj [(''role'', JStr ''assistant''), (''content'', JStr ''4'')]])]])
   = Inr (JStr ''4'')"
  using extractText_cases
    [of "JArr [JObj [(''generated_text'',
        JArr [JObj [(''role'', JStr ''user''), (''content'', JStr ''2+2?'')],
              JObj [(''role'', JStr ''assistant''), (''content'', JStr ''4'')]])]]"]
  by (simp add: extractText_by_shape_def text_from_def)

text \<open>
  Claim C1 as stated fails: a first element whose \<open>generated_text\<close> is the array \<open>[1]\<close>
  falls under none of the rules for a string or a chat message, and the helper returns
  the JSON text of that array, not the JSON text of the result.
\<close>

theorem extractText_stringifies_generated_text:
  "extractText (JArr [JObj [(''generated_text'', JArr [JNum 1])]]) = Inr (JStr ''[1]'')
   \<and> extractText (JArr [JObj [(''generated_text'', JArr [JNum 1])]])
       \<noteq> JSON_stringify [] (JArr [JObj [(''generated_text'', JArr [JNum 1])]])"
  by (simp add: extractText_def getGeneratedText_def isChatMessage_def JSON_stringify_def
      wrap_partial_def QuoteJSONString_def json_escape_def show_int_def digit_char_def)





section \<open>Properties of the pages\<close>

lemmas llama_steps = generate_click_def loadModel_ll_created_def loadModel_ll_imported_def
  loadModel_ll_start_def loadModel_ll_finally_def loadModel_ll_catch_def llama_initial_def
  cleanup_ll_def generate_settled_def Let_def

lemmas rp_steps = init_start_def init_imported_def init_created_def init_catch_def
  init_finally_def onGenerate_click_def onGenerate_settled_def cleanup_rp_def Let_def

lemmas dp_steps = runOnceAndFree_dp_click_def loadPipeline_imported_def loadPipeline_created_def
  runOnceAndFree_dp_loaded_def runOnceAndFree_dp_settled_def runOnceAndFree_dp_catch_def
  runOnceAndFree_dp_finally_def disposePipeline_def Let_def

lemmas mf_steps = loadModel_mf_start_def loadModel_mf_imported_def loadModel_mf_created_def
  loadModel_mf_catch_def loadModel_mf_finally_def runOnceAndFree_mf_click_def
  runOnceAndFree_mf_proceed_def runOnceAndFree_mf_settled_def resume_mf_def Let_def

subsection \<open>The empty output of the llama2.c page\<close>

lemma generated_text_or_empty_shape:
  "generated_text_or_empty (JArr []) = Inr (JStr [])"
  "carried_generated_text x = None \<or> carried_generated_text x = Some JUndefined
     \<or> carried_generated_text x = Some JNull
   \<Longrightarrow> generated_text_or_empty (JArr (x # xs)) = Inr (JStr [])"
  by (cases x; auto simp: generated_text_or_empty_def nullish_def Let_def)+

text \<open>
  Claim C10, as amended. When the generation resolves with an empty array, or with an
  array whose first element carries no \<open>generated_text\<close> or carries \<open>undefined\<close> or
  \<open>null\<close> there, \<open>generate\<close> sets the output to the empty string without entering its
  \<open>catch\<close>, clears the generating flag, and the page renders the dash.
\<close>

theorem generate_empty_output:
  assumes "result = JArr []
     \<or> (\<exists>x xs. result = JArr (x # xs)
          \<and> (carried_generated_text x = None \<or> carried_generated_text x = Some JUndefined
               \<or> carried_generated_text x = Some JNull))"
  shows "output_ll (generate_settled (Inr result) s) = JStr []
     \<and> output_shown_ll (generate_settled (Inr result) s) = JStr dash
     \<and> \<not> generating_ll (generate_settled (Inr result) s)"
proof -
  from assms have "generated_text_or_empty result = Inr (JStr [])"
    using generated_text_or_empty_shape by blast
  then show ?thesis
    by (simp add: generate_settled_def output_shown_ll_def Let_def)
qed

theorem generate_empty_output_witness:
  "generating_ll llama_generating
   \<and> output_ll (generate_settled (Inr (JArr [JObj [(''score'', JNum 1)]])) llama_generating) = JStr []
   \<and> output_shown_ll (generate_settled (Inr (JArr [JObj [(''score'', JNum 1)]])) llama_generating)
       = JStr dash
   \<and> \<not> generating_ll (generate_settled (Inr (JArr [JObj [(''score'', JNum 1)]])) llama_generating)"
  using generate_empty_output [of "JArr [JObj [(''score'', JNum 1)]]" llama_generating]
  by (simp add: llama_generating_def llama_steps)

text \<open>
  Claim C10 as stated fails for a first element whose \<open>generated_text\<close> is present but
  not a string: \<open>??\<close> only replaces \<open>null\<close> and \<open>undefined\<close>, so the number 5 becomes
  the output state and is what the page renders.
\<close>

theorem generate_keeps_other_generated_text:
  "output_ll (generate_settled (Inr (JArr [JObj [(''generated_text'', JNum 5)]])) llama_generating)
     = JNum 5
   \<and> output_shown_ll
       (generate_settled (Inr (JArr [JObj [(''generated_text'', JNum 5)]])) llama_generating)
     = JNum 5"
  by (simp add: generate_settled_def generated_text_or_empty_def nullish_def output_shown_ll_def)

subsection \<open>Releasing the model\<close>

lemma run_dp_ends:
  "pipelineRef (runOnceAndFree_dp imported created settled s) = None
   \<and> run_pc (runOnceAndFree_dp imported created settled s) = DpIdle"
  by (cases imported; cases created; cases settled; cases "pipelineRef s")
    (simp_all add: runOnceAndFree_dp_def dp_steps Let_def split: sum.splits)

lemma run_dp_disposes_loaded:
  "pipelineRef s = None \<Longrightarrow> has_dispose p
   \<Longrightarrow> last (calls_dp (runOnceAndFree_dp (Inr u) (Inr p) settled s)) = Dispose p"
  by (cases settled) (simp_all add: runOnceAndFree_dp_def dp_steps Let_def split: sum.splits)

lemma run_dp_disposes_held:
  "pipelineRef s = Some p \<Longrightarrow> has_dispose p
   \<Longrightarrow> last (calls_dp (runOnceAndFree_dp imported created settled s)) = Dispose p"
  by (cases settled) (simp_all add: runOnceAndFree_dp_def dp_steps Let_def split: sum.splits)

text \<open>
  Claim C3, as amended. In the disposable page every run of \<open>runOnceAndFree\<close>, whatever
  the outcomes of the import, the construction and the generation, ends with the stored
  pipeline handle null and no run in progress; when the pipeline it held has a
  \<open>dispose\<close> method, the last call of the run is \<open>dispose()\<close> on that pipeline (the
  outcome of \<open>dispose()\<close> is not an input of any step: its error is ignored). In the
  min-footprint page the \<open>finally\<close> block of \<open>runOnceAndFree\<close> clears the generator and
  the ready flag.
\<close>

theorem release_after_run:
  "pipelineRef (runOnceAndFree_dp imported created settled s) = None
   \<and> run_pc (runOnceAndFree_dp imported created settled s) = DpIdle
   \<and> (\<forall>p. pipelineRef s = None \<and> has_dispose p \<longrightarrow>
         last (calls_dp (runOnceAndFree_dp (Inr u) (Inr p) settled s)) = Dispose p)
   \<and> (\<forall>p. pipelineRef s = Some p \<and> has_dispose p \<longrightarrow>
         last (calls_dp (runOnceAndFree_dp imported created settled s)) = Dispose p)
   \<and> generator_mf (runOnceAndFree_mf_settled settled t) = None
   \<and> \<not> ready_mf (runOnceAndFree_mf_settled settled t)"
  using run_dp_ends [of imported created settled s] run_dp_disposes_loaded run_dp_disposes_held
  by (simp add: runOnceAndFree_mf_settled_def Let_def)

theorem release_after_run_witness:
  "pipelineRef disposable_initial = None \<and> has_dispose (Pipeline 7 True)
   \<and> pipelineRef (runOnceAndFree_dp (Inr ()) (Inr (Pipeline 7 True)) (Inl JNull) disposable_initial) = None
   \<and> last (calls_dp (runOnceAndFree_dp (Inr ()) (Inr (Pipeline 7 True)) (Inl JNull) disposable_initial))
       = Dispose (Pipeline 7 True)
   \<and> status_dp (runOnceAndFree_dp (Inr ()) (Inr (Pipeline 7 True)) (Inl JNull) disposable_initial)
       = ''error''"
  using release_after_run
    [of "Inr ()" "Inr (Pipeline 7 True)" "Inl JNull" disposable_initial "()" minfootprint_initial]
  by (simp add: runOnceAndFree_dp_def dp_steps disposable_initial_def)

text \<open>
  Claim C3 as stated fails for a pipeline that has no \<open>dispose\<close> method (the page
  declares the method optional and tests for it): the run ends with the handle null,
  and the log of the whole run holds no \<open>dispose()\<close>.
\<close>

theorem no_dispose_without_method:
  "calls_dp (runOnceAndFree_dp (Inr ()) (Inr (Pipeline 7 False))
       (Inr (JArr [JObj [(''generated_text'', JStr ''Paris.'')]])) disposable_initial)
   = [ImportTransformers, SetEnv ''allowLocalModels'' False, SetEnv ''useBrowserCache'' True,
      CreatePipeline ''text-generation'' modelId_SmolLM2
        (Some \<lparr>device = Some ''wasm'', dtype = Some ''q4''\<rparr>),
      Generate (Pipeline 7 False)
        (JStr ''Answer in one sentence: What is the capital of France?'') generate_options_dp]
   \<and> pipelineRef (runOnceAndFree_dp (Inr ()) (Inr (Pipeline 7 False))
       (Inr (JArr [JObj [(''generated_text'', JStr ''Paris.'')]])) disposable_initial) = None"
  by (simp add: runOnceAndFree_dp_def dp_steps disposable_initial_def extractText_SmolLM2_def
      first_generated_text_def nullish_def)

subsection \<open>The status of the disposable page\<close>

lemma extractText_SmolLM2_Inr: "\<exists>v. extractText_SmolLM2 result = Inr v"
  by (simp add: extractText_SmolLM2_def Let_def split: sum.splits)

lemma case_extractText_SmolLM2:
  "(case extractText_SmolLM2 r of Inl e \<Rightarrow> f e | Inr t \<Rightarrow> g t) = g (projr (extractText_SmolLM2 r))"
  using extractText_SmolLM2_Inr [of r] by auto

lemma status_reachable_dp:
  "reachable_dp s \<Longrightarrow> status_dp s \<in> {''idle'', ''loading'', ''running'', ''error''}"
proof (induction rule: reachable_dp.induct)
  case (dp_settled s settled)
  then show ?case
    by (cases settled) (auto simp: dp_steps case_extractText_SmolLM2)
qed (auto simp: dp_steps disposable_initial_def setPrompt_dp_def split: sum.splits option.splits)

lemma settled_idle: "status_dp (runOnceAndFree_dp_settled (Inr result) s) = ''idle''"
  by (simp add: dp_steps case_extractText_SmolLM2)

lemma run_dp_status:
  "pipelineRef s = None \<Longrightarrow>
   status_dp (runOnceAndFree_dp imported created settled s)
     = (if isl imported \<or> isl created \<or> isl settled then ''error'' else ''idle'')"
  by (cases imported; cases created; cases settled)
    (simp_all add: runOnceAndFree_dp_def dp_steps case_extractText_SmolLM2)

text \<open>
  Claim C5. In the disposable page \<open>runOnceAndFree\<close> sets the status to \<open>loading\<close>
  when triggered, to \<open>running\<close> once the pipeline is loaded, to \<open>idle\<close> when the
  generation succeeds and to \<open>error\<close> when the import, the construction or the
  generation throws; a run started with no pipeline held ends in \<open>error\<close> exactly when
  one of them threw, and otherwise in \<open>idle\<close>; and in every reachable state the status
  is one of \<open>idle\<close>, \<open>loading\<close>, \<open>running\<close>, \<open>error\<close>.
\<close>

theorem status_reflects_run:
  "status_dp (runOnceAndFree_dp_click s) = ''loading''
   \<and> status_dp (loadPipeline_created (Inr p) s) = ''running''
   \<and> status_dp (runOnceAndFree_dp_loaded p s) = ''running''
   \<and> status_dp (runOnceAndFree_dp_settled (Inr result) s) = ''idle''
   \<and> status_dp (loadPipeline_imported (Inl err) s) = ''error''
   \<and> status_dp (loadPipeline_created (Inl err) s) = ''error''
   \<and> status_dp (runOnceAndFree_dp_settled (Inl err) s) = ''error''
   \<and> (pipelineRef s = None \<longrightarrow>
        status_dp (runOnceAndFree_dp imported created settled s)
          = (if isl imported \<or> isl created \<or> isl settled then ''error'' else ''idle''))
   \<and> (reachable_dp s \<longrightarrow> status_dp s \<in> {''idle'', ''loading'', ''running'', ''error''})"
  using settled_idle [of result s] run_dp_status [of s imported created settled]
    status_reachable_dp [of s]
  by (simp add: dp_steps split: option.splits)

theorem status_reflects_run_witness:
  "pipelineRef disposable_initial = None
   \<and> reachable_dp disposable_initial
   \<and> status_dp disposable_initial = ''idle''
   \<and> status_dp (runOnceAndFree_dp_click disposable_initial) = ''loading''
   \<and> status_dp (runOnceAndFree_dp (Inr ()) (Inl (JStr ''no such model'')) (Inr JNull)
        disposable_initial) = ''error''
   \<and> status_dp (runOnceAndFree_dp (Inr ()) (Inr (Pipeline 7 True)) (Inr JNull)
        disposable_initial) = ''idle''"
  using status_reflects_run
      [of disposable_initial "Pipeline 7 True" JNull JNull "Inr ()" "Inl (JStr ''no such model'')"
        "Inr JNull"]
    status_reflects_run
      [of disposable_initial "Pipeline 7 True" JNull JNull "Inr ()" "Inr (Pipeline 7 True)"
        "Inr JNull"]
    dp_initial
  by (simp add: disposable_initial_def)

subsection \<open>The choices of backend and quantization\<close>

lemma only_creates_simps [simp]:
  "only_creates x []"
  "only_creates x (c # cs) = ((is_create c \<longrightarrow> c = x) \<and> only_creates x cs)"
  "only_creates x (cs @ ds) = (only_creates x cs \<and> only_creates x ds)"
  by (auto simp: only_creates_def)

lemma creates_dp_finally [simp]:
  "only_creates x (calls_dp (runOnceAndFree_dp_finally s)) = only_creates x (calls_dp s)"
  by (simp add: runOnceAndFree_dp_finally_def disposePipeline_def split: option.splits)

lemma creates_dp_catch [simp]:
  "only_creates x (calls_dp (runOnceAndFree_dp_catch err s)) = only_creates x (calls_dp s)"
  by (simp add: runOnceAndFree_dp_catch_def)

lemma creates_dp_click [simp]:
  "only_creates x (calls_dp (runOnceAndFree_dp_click s)) = only_creates x (calls_dp s)"
  by (simp add: runOnceAndFree_dp_click_def Let_def split: option.splits)

lemma creates_dp_loaded [simp]:
  "only_creates x (calls_dp (runOnceAndFree_dp_loaded p s)) = only_creates x (calls_dp s)"
  by (simp add: runOnceAndFree_dp_loaded_def)

lemma creates_dp_created [simp]:
  "only_creates x (calls_dp (loadPipeline_created created s)) = only_creates x (calls_dp s)"
  by (cases created) (simp_all add: loadPipeline_created_def)

lemma creates_dp_settled [simp]:
  "only_creates x (calls_dp (runOnceAndFree_dp_settled settled s)) = only_creates x (calls_dp s)"
  by (cases settled) (simp_all add: runOnceAndFree_dp_settled_def split: sum.splits)

lemma creates_dp_imported:
  "only_creates (CreatePipeline ''text-generation'' modelId_SmolLM2
           (Some \<lparr>device = Some ''wasm'', dtype = Some ''q4''\<rparr>)) (calls_dp (loadPipeline_imported imported s))
   = only_creates (CreatePipeline ''text-generation'' modelId_SmolLM2
           (Some \<lparr>device = Some ''wasm'', dtype = Some ''q4''\<rparr>)) (calls_dp s)"
  by (cases imported) (simp_all add: loadPipeline_imported_def)

lemma creates_dp:
  "reachable_dp s \<Longrightarrow>
   only_creates (CreatePipeline ''text-generation'' modelId_SmolLM2
           (Some \<lparr>device = Some ''wasm'', dtype = Some ''q4''\<rparr>)) (calls_dp s)"
  by (induction rule: reachable_dp.induct)
     (simp_all add: disposable_initial_def creates_dp_imported setPrompt_dp_def)


lemma creates_mf_finally [simp]:
  "only_creates x (calls_mf (loadModel_mf_finally s)) = only_creates x (calls_mf s)"
  by (simp add: loadModel_mf_finally_def)

lemma creates_mf_catch [simp]:
  "only_creates x (calls_mf (loadModel_mf_catch err s)) = only_creates x (calls_mf s)"
  by (simp add: loadModel_mf_catch_def)

lemma creates_mf_proceed [simp]:
  "only_creates x (calls_mf (runOnceAndFree_mf_proceed g p s)) = only_creates x (calls_mf s)"
  by (cases g) (simp_all add: runOnceAndFree_mf_proceed_def)

lemma creates_mf_resume [simp]:
  "only_creates x (calls_mf (resume_mf s)) = only_creates x (calls_mf s)"
  by (simp add: resume_mf_def split: run_pc_mf.splits)

lemma creates_mf_start [simp]:
  "only_creates x (calls_mf (loadModel_mf_start s)) = only_creates x (calls_mf s)"
  by (simp add: loadModel_mf_start_def)

lemma creates_mf_created [simp]:
  "only_creates x (calls_mf (loadModel_mf_created created s)) = only_creates x (calls_mf s)"
  by (cases created) (simp_all add: loadModel_mf_created_def)

lemma creates_mf_click [simp]:
  "only_creates x (calls_mf (runOnceAndFree_mf_click s)) = only_creates x (calls_mf s)"
  by (simp add: runOnceAndFree_mf_click_def Let_def)

lemma creates_mf_settled [simp]:
  "only_creates x (calls_mf (runOnceAndFree_mf_settled settled s)) = only_creates x (calls_mf s)"
  by (simp add: runOnceAndFree_mf_settled_def Let_def split: sum.splits)

lemma creates_mf_imported:
  "only_creates (CreatePipeline ''text-generation'' modelId_SmolLM2
           (Some \<lparr>device = Some (if hasWebGPU navigator then ''webgpu'' else ''wasm''),
                  dtype = None\<rparr>)) (calls_mf (loadModel_mf_imported navigator imported s))
   = only_creates (CreatePipeline ''text-generation'' modelId_SmolLM2
           (Some \<lparr>device = Some (if hasWebGPU navigator then ''webgpu'' else ''wasm''),
                  dtype = None\<rparr>)) (calls_mf s)"
  by (cases imported) (simp_all add: loadModel_mf_imported_def)

lemma creates_mf:
  "reachable_mf navigator s \<Longrightarrow>
   only_creates (CreatePipeline ''text-generation'' modelId_SmolLM2
           (Some \<lparr>device = Some (if hasWebGPU navigator then ''webgpu'' else ''wasm''),
                  dtype = None\<rparr>)) (calls_mf s)"
  by (induction rule: reachable_mf.induct)
     (simp_all add: minfootprint_initial_def creates_mf_imported setPrompt_mf_def clear_mf_def)

text \<open>
  Claim C7, as amended. Each of the two SmolLM2 pages makes a fixed choice of model
  identifier, backend and quantization: the disposable page constructs its pipeline
  with device \<open>wasm\<close> and dtype \<open>q4\<close> on every load, in every reachable state of its
  log; the min-footprint page passes device \<open>webgpu\<close> exactly when \<open>navigator\<close> is
  defined and has a \<open>gpu\<close> property, \<open>wasm\<close> otherwise, and no dtype.
\<close>

theorem pipeline_choices:
  "calls_dp (loadPipeline_imported (Inr u) sd)
     = calls_dp sd
       @ [SetEnv ''allowLocalModels'' False, SetEnv ''useBrowserCache'' True,
          CreatePipeline ''text-generation'' modelId_SmolLM2
            (Some \<lparr>device = Some ''wasm'', dtype = Some ''q4''\<rparr>)]
   \<and> (reachable_dp sd \<longrightarrow>
        only_creates
          (CreatePipeline ''text-generation'' modelId_SmolLM2
             (Some \<lparr>device = Some ''wasm'', dtype = Some ''q4''\<rparr>))
          (calls_dp sd))
   \<and> calls_mf (loadModel_mf_imported navigator (Inr u) sm)
     = calls_mf sm
       @ [SetEnv ''allowLocalModels'' False,
          CreatePipeline ''text-generation'' modelId_SmolLM2
            (Some \<lparr>device = Some (if hasWebGPU navigator then ''webgpu'' else ''wasm''),
                   dtype = None\<rparr>)]
   \<and> (reachable_mf navigator sm \<longrightarrow>
        only_creates
          (CreatePipeline ''text-generation'' modelId_SmolLM2
             (Some \<lparr>device = Some (if hasWebGPU navigator then ''webgpu'' else ''wasm''),
                    dtype = None\<rparr>))
          (calls_mf sm))
   \<and> hasWebGPU navigator = (\<exists>nav. navigator = Some nav \<and> has_property ''gpu'' nav)"
proof -
  have gpu: "hasWebGPU navigator = (\<exists>nav. navigator = Some nav \<and> has_property ''gpu'' nav)"
    by (simp add: hasWebGPU_def split: option.splits)
  show ?thesis
    using creates_dp [of sd] creates_mf [of navigator sm] gpu
    by (simp add: loadPipeline_imported_def loadModel_mf_imported_def)
qed

lemma reachable_disposable_loading: "reachable_dp disposable_loading"
  unfolding disposable_loading_def
  by (intro dp_imported dp_click dp_initial)
    (simp_all add: button_disabled_dp_def disposable_initial_def runOnceAndFree_dp_click_def)

lemma reachable_minfootprint_loading:
  "reachable_mf (Some (JObj [(''gpu'', JObj [])])) minfootprint_loading"
proof -
  have "reachable_mf (Some (JObj [(''gpu'', JObj [])]))
          (resume_mf (loadModel_mf_imported (Some (JObj [(''gpu'', JObj [])])) (Inr ())
             (loadModel_mf_start minfootprint_initial)))"
    by (intro mf_imported mf_mount mf_initial)
      (simp_all add: minfootprint_initial_def loadModel_mf_start_def)
  then show ?thesis
    by (simp add: minfootprint_loading_def resume_mf_def loadModel_mf_imported_def
        loadModel_mf_start_def minfootprint_initial_def)
qed

theorem pipeline_choices_witness:
  "reachable_dp disposable_loading
   \<and> calls_dp disposable_loading
       = [ImportTransformers, SetEnv ''allowLocalModels'' False, SetEnv ''useBrowserCache'' True,
          CreatePipeline ''text-generation'' modelId_SmolLM2
            (Some \<lparr>device = Some ''wasm'', dtype = Some ''q4''\<rparr>)]
   \<and> only_creates
        (CreatePipeline ''text-generation'' modelId_SmolLM2
           (Some \<lparr>device = Some ''wasm'', dtype = Some ''q4''\<rparr>))
        (calls_dp disposable_loading)
   \<and> reachable_mf (Some (JObj [(''gpu'', JObj [])])) minfootprint_loading
   \<and> hasWebGPU (Some (JObj [(''gpu'', JObj [])]))
   \<and> calls_mf minfootprint_loading
       = [ImportTransformers, SetEnv ''allowLocalModels'' False,
          CreatePipeline ''text-generation'' modelId_SmolLM2
            (Some \<lparr>device = Some ''webgpu'', dtype = None\<rparr>)]
   \<and> only_creates
        (CreatePipeline ''text-generation'' modelId_SmolLM2
           (Some \<lparr>device = Some ''webgpu'', dtype = None\<rparr>))
        (calls_mf minfootprint_loading)"
  using pipeline_choices [of "()" disposable_loading "Some (JObj [(''gpu'', JObj [])])" minfootprint_loading]
    reachable_disposable_loading reachable_minfootprint_loading
  by (simp add: disposable_loading_def minfootprint_loading_def dp_steps mf_steps
      disposable_initial_def minfootprint_initial_def hasWebGPU_def)

text \<open>
  Claim C7 as stated says that the pages differ in nothing but model identifier,
  backend and quantization. The two SmolLM2 pages use the same model identifier and
  still pass different generation options: only the min-footprint page sets a
  repetition penalty.
\<close>

theorem generation_options_differ:
  "repetition_penalty generate_options_dp = None
   \<and> repetition_penalty generate_options_mf = Some (105 / 100)
   \<and> generate_options_dp \<noteq> generate_options_mf"
  by (simp add: generate_options_dp_def generate_options_mf_def)

subsection \<open>The stale generator of the min-footprint page\<close>

text \<open>
  Claim C9, as amended. In the min-footprint page, when \<open>generator\<close> is null as
  Generate is clicked (and no run is in progress), \<open>runOnceAndFree\<close> starts \<open>loadModel\<close>
  and waits for it with the null \<open>generator\<close> it closed over; whatever the load's
  outcome, the page then is exactly as \<open>loadModel\<close> alone leaves it: no run in
  progress, the generating flag untouched, no call of the pipeline added to the log.
  After a successful load the fresh pipeline sits in the state, ready, with an empty
  output, so the next click does call the pipeline. The generator is null after every
  run that gets to its \<open>finally\<close> block, not after every run.
\<close>

theorem stale_generator_returns:
  assumes "generator_mf s = None" and "run_pc_mf s = MfIdle"
  shows "run_pc_mf (runOnceAndFree_mf_click s) = MfAwaitLoad None (prompt_mf s)
   \<and> loadModel_pc_mf (runOnceAndFree_mf_click s) = LoadAwaitImport
   \<and> load_to_end_mf navigator imported created (runOnceAndFree_mf_click s)
       = load_to_end_mf navigator imported created (loadModel_mf_start s)
   \<and> run_pc_mf (load_to_end_mf navigator imported created (runOnceAndFree_mf_click s)) = MfIdle
   \<and> generating_mf (load_to_end_mf navigator imported created (runOnceAndFree_mf_click s))
       = generating_mf s
   \<and> filter is_generate (calls_mf (load_to_end_mf navigator imported created (runOnceAndFree_mf_click s)))
       = filter is_generate (calls_mf s)
   \<and> (\<forall>g. created = Inr g \<and> \<not> isl imported \<longrightarrow>
        generator_mf (load_to_end_mf navigator imported created (runOnceAndFree_mf_click s)) = Some g
        \<and> ready_mf (load_to_end_mf navigator imported created (runOnceAndFree_mf_click s))
        \<and> output_mf (load_to_end_mf navigator imported created (runOnceAndFree_mf_click s)) = JStr []
        \<and> run_pc_mf
             (runOnceAndFree_mf_click
                (load_to_end_mf navigator imported created (runOnceAndFree_mf_click s)))
            = MfAwaitGenerate)
   \<and> generator_mf (runOnceAndFree_mf_settled settled t) = None"
  using assms
  by (cases imported; cases created) (simp_all add: load_to_end_mf_def mf_steps)

lemma minfootprint_freed_eq:
  "minfootprint_freed =
     \<lparr>ready_mf = False, loadingModel = False, generating_mf = False,
      prompt_mf = ''Answer in one sentence: What is the capital of France?'',
      output_mf = JStr ''Paris.'', generator_mf = None, loadModel_pc_mf = LoadFinished,
      run_pc_mf = MfIdle,
      calls_mf =
        [ImportTransformers, SetEnv ''allowLocalModels'' False,
         CreatePipeline ''text-generation'' modelId_SmolLM2
           (Some \<lparr>device = Some ''wasm'', dtype = None\<rparr>),
         Generate (Pipeline 1 True)
           (JStr ''Answer in one sentence: What is the capital of France?'')
           generate_options_mf]\<rparr>"
  by (simp add: minfootprint_freed_def load_to_end_mf_def mf_steps minfootprint_initial_def
      hasWebGPU_def extractText_SmolLM2_def first_generated_text_def nullish_def)

theorem stale_generator_returns_witness:
  "generator_mf minfootprint_freed = None
   \<and> run_pc_mf minfootprint_freed = MfIdle
   \<and> run_pc_mf (runOnceAndFree_mf_click minfootprint_freed)
       = MfAwaitLoad None ''Answer in one sentence: What is the capital of France?''
   \<and> generator_mf
        (load_to_end_mf None (Inr ()) (Inr (Pipeline 2 True))
           (runOnceAndFree_mf_click minfootprint_freed)) = Some (Pipeline 2 True)
   \<and> run_pc_mf
        (load_to_end_mf None (Inr ()) (Inr (Pipeline 2 True))
           (runOnceAndFree_mf_click minfootprint_freed)) = MfIdle
   \<and> \<not> generating_mf
        (load_to_end_mf None (Inr ()) (Inr (Pipeline 2 True))
           (runOnceAndFree_mf_click minfootprint_freed))
   \<and> output_mf
        (load_to_end_mf None (Inr ()) (Inr (Pipeline 2 True))
           (runOnceAndFree_mf_click minfootprint_freed)) = JStr []
   \<and> filter is_generate
        (calls_mf
           (load_to_end_mf None (Inr ()) (Inr (Pipeline 2 True))
              (runOnceAndFree_mf_click minfootprint_freed)))
       = [Generate (Pipeline 1 True)
            (JStr ''Answer in one sentence: What is the capital of France?'')
            generate_options_mf]"
  using stale_generator_returns
    [of minfootprint_freed None "Inr ()" "Inr (Pipeline 2 True)"]
  by (simp add: minfootprint_freed_eq load_to_end_mf_def mf_steps hasWebGPU_def)

text \<open>
  Claim C9 as stated says that the generator is null after every previous run. A run
  that found it null returns before its \<open>finally\<close> block: after it, the pipeline the
  on-demand load produced is still in the state, and the click that follows runs it.
\<close>

theorem stale_return_keeps_fresh_generator:
  "generator_mf
     (load_to_end_mf None (Inr ()) (Inr (Pipeline 2 True))
        (runOnceAndFree_mf_click minfootprint_freed)) = Some (Pipeline 2 True)
   \<and> run_pc_mf
       (runOnceAndFree_mf_click
          (load_to_end_mf None (Inr ()) (Inr (Pipeline 2 True))
             (runOnceAndFree_mf_click minfootprint_freed))) = MfAwaitGenerate"
  by (simp add: minfootprint_freed_eq load_to_end_mf_def mf_steps hasWebGPU_def)

subsection \<open>What holds in every reachable state\<close>










subsection \<open>Thrown values\<close>




text \<open>
  Outside the amended claim: on the DistilGPT-2 and Phi-3 pages a thrown value that
  \<open>JSON.stringify\<close> cannot serialise makes the \<open>catch\<close> block itself throw; the
  output is left as it was and \<open>onGenerate\<close> rejects.
\<close>

lemma onGenerate_rethrows:
  "output_rp (onGenerate_settled p (Inl (JBigInt 1)) s) = output_rp s
   \<and> rejections_rp (onGenerate_settled p (Inl (JBigInt 1)) s)
       = rejections_rp s @ [JError ''TypeError'' ''Do not know how to serialize a BigInt'']"
  by (simp add: onGenerate_settled_def JSON_stringify_def)

subsection \<open>Cancellation of the load\<close>

text \<open>
  On the llama2.c page every state update of \<open>loadModel\<close> is guarded by the flag: once
  the cleanup has run, a step of the load changes nothing but the record of where the
  load is and of the calls it made.
\<close>

lemma loadModel_ll_silent_after_cleanup:
  assumes "cancelled_ll s"
  shows "loadModel_ll_imported imported s
           = s\<lparr>calls_ll := calls_ll (loadModel_ll_imported imported s),
               loadModel_pc_ll := loadModel_pc_ll (loadModel_ll_imported imported s)\<rparr>"
    and "loadModel_ll_created created s
           = s\<lparr>calls_ll := calls_ll (loadModel_ll_created created s),
               loadModel_pc_ll := loadModel_pc_ll (loadModel_ll_created created s)\<rparr>"
  using assms
  by (cases imported; cases created;
      simp add: loadModel_ll_imported_def loadModel_ll_created_def loadModel_ll_catch_def
        loadModel_ll_finally_def)+

text \<open>
  Claim C6 does not hold on the Phi-3 page (nor on the DistilGPT-2 page, whose \<open>init\<close>
  is the same): the flag is checked inside \<open>try\<close> only. With the cleanup run while the
  import is awaited, the import's completion returns through \<open>finally\<close>, which clears
  the loading flag; and its failure runs \<open>catch\<close>, which sets the status.
\<close>

theorem init_updates_state_after_cleanup:
  "cancelled_rp (cleanup_rp phi3_importing)
   \<and> isLoadingModel (cleanup_rp phi3_importing)
   \<and> status_rp (cleanup_rp phi3_importing) = ''Importing Transformers.js...''
   \<and> \<not> isLoadingModel (init_imported Phi3 (Inr ()) (cleanup_rp phi3_importing))
   \<and> \<not> isLoadingModel
         (init_imported Phi3 (Inl (JError ''Error'' ''offline'')) (cleanup_rp phi3_importing))
   \<and> status_rp (init_imported Phi3 (Inl (JError ''Error'' ''offline'')) (cleanup_rp phi3_importing))
       = ''Error loading model: offline''"
  by (simp add: phi3_importing_def rp_steps ref_initial_def)

end
